theory Spec2Isabelle
  imports Main "HOL-Library.Sublist"
begin

section \<open>Python text\<close>

text \<open>
  A Python \<^verbatim>\<open>str\<close> is a sequence of Unicode code points: \<^verbatim>\<open>len\<close> and slicing count code
  points, not bytes. A text is therefore a list of code points. The literals of the source
  that are not ASCII (Cyrillic words, emoji) are written as their code points, each with the
  source line it is taken from; ASCII literals are written through \<open>ascii\<close>.
\<close>

type_synonym pystr = "nat list"

abbreviation ascii :: "string \<Rightarrow> pystr" where
  "ascii \<equiv> map of_char"

text \<open>\<^verbatim>\<open>sep.join(parts)\<close>\<close>

fun joinstr :: "pystr \<Rightarrow> pystr list \<Rightarrow> pystr" where
  "joinstr sep [] = []"
| "joinstr sep [x] = x"
| "joinstr sep (x # y # ys) = x @ sep @ joinstr sep (y # ys)"

text \<open>
  \<^verbatim>\<open>str(n)\<close> for a non-negative integer (the decimal digits, most significant first), and for
  any integer (a minus sign in front of a negative one).
\<close>

function str_nat :: "nat \<Rightarrow> pystr" where
  "str_nat n = (if n < 10 then [48 + n] else str_nat (n div 10) @ [48 + n mod 10])"
  by pat_completeness auto
termination
  by (relation "measure id") auto

declare str_nat.simps [simp del]

definition str_int :: "int \<Rightarrow> pystr" where
  "str_int i = (if i < 0 then 45 # str_nat (nat (- i)) else str_nat (nat i))"

text \<open>
  \<^verbatim>\<open>xs[:k]\<close> for an integer \<open>k\<close>: the first \<open>k\<close> elements, and for a negative \<open>k\<close> all but the
  last \<open>-k\<close> elements. A slice never raises.
\<close>

definition py_take :: "int \<Rightarrow> 'a list \<Rightarrow> 'a list" where
  "py_take k xs = (if 0 \<le> k then take (nat k) xs else take (nat (int (length xs) + k)) xs)"

text \<open>
  \<^verbatim>\<open>str.isspace\<close> on one code point, and \<^verbatim>\<open>str.strip()\<close>, which removes the leading and the
  trailing code points that are whitespace.
\<close>

definition py_isspace :: "nat \<Rightarrow> bool" where
  "py_isspace c =
     ((9 \<le> c \<and> c \<le> 13) \<or> (28 \<le> c \<and> c \<le> 32) \<or> c = 133 \<or> c = 160 \<or> c = 5760 \<or>
      (8192 \<le> c \<and> c \<le> 8202) \<or> c = 8232 \<or> c = 8233 \<or> c = 8239 \<or> c = 8287 \<or> c = 12288)"

definition py_strip :: "pystr \<Rightarrow> pystr" where
  "py_strip s = rev (dropWhile py_isspace (rev (dropWhile py_isspace s)))"

text \<open>
  A dictionary whose keys and values are texts, and \<^verbatim>\<open>d.get(key, default)\<close>. The job listings
  and the entries of a profile are such dictionaries (the data model has all their fields as
  text).
\<close>

type_synonym pydict = "pystr \<rightharpoonup> pystr"

definition dict_get :: "pydict \<Rightarrow> pystr \<Rightarrow> pystr \<Rightarrow> pystr" where
  "dict_get d k dflt = (case d k of None \<Rightarrow> dflt | Some v \<Rightarrow> v)"

section \<open>The response formatter (openai_service.py)\<close>

subsection \<open>The literals of \<open>format_jobs_response\<close>\<close>

text \<open>line 180: the fixed reply for an empty job list (pensive-face emoji, then 'Unfortunately, no suitable vacancies were found for your request. Try changing the search parameters.')\<close>

definition no_results_message :: pystr where
  "no_results_message =
     [128532, 32, 1050, 32, 1089, 1086, 1078, 1072, 1083, 1077, 1085, 1080, 1102, 44,
      32, 1087, 1086, 32, 1074, 1072, 1096, 1077, 1084, 1091, 32, 1079, 1072, 1087,
      1088, 1086, 1089, 1091, 32, 1085, 1077, 32, 1085, 1072, 1081, 1076, 1077, 1085,
      1086, 32, 1087, 1086, 1076, 1093, 1086, 1076, 1103, 1097, 1080, 1093, 32, 1074,
      1072, 1082, 1072, 1085, 1089, 1080, 1081, 46, 32, 1055, 1086, 1087, 1088, 1086,
      1073, 1091, 1081, 1090, 1077, 32, 1080, 1079, 1084, 1077, 1085, 1080, 1090, 1100,
      32, 1087, 1072, 1088, 1072, 1084, 1077, 1090, 1088, 1099, 32, 1087, 1086, 1080,
      1089, 1082, 1072, 46]"

text \<open>line 182: briefcase emoji, 'Vacancies found: '\<close>

definition found_prefix :: pystr where
  "found_prefix =
     [128188, 32, 1053, 1072, 1081, 1076, 1077, 1085, 1086, 32, 1074, 1072, 1082, 1072,
      1085, 1089, 1080, 1081, 58, 32]"

text \<open>line 185: 'Showing the first '\<close>

definition showing_first :: pystr where
  "showing_first =
     [1055, 1086, 1082, 1072, 1079, 1099, 1074, 1072, 1102, 32, 1087, 1077, 1088, 1074,
      1099, 1077, 32]"

text \<open>line 185: ' out of '\<close>

definition out_of :: pystr where
  "out_of =
     [32, 1080, 1079, 32]"

text \<open>line 188: 'Untitled'\<close>

definition default_title :: pystr where
  "default_title =
     [1041, 1077, 1079, 32, 1085, 1072, 1079, 1074, 1072, 1085, 1080, 1103]"

text \<open>line 189: 'Company not specified'\<close>

definition default_company :: pystr where
  "default_company =
     [1050, 1086, 1084, 1087, 1072, 1085, 1080, 1103, 32, 1085, 1077, 32, 1091, 1082,
      1072, 1079, 1072, 1085, 1072]"

text \<open>line 190: 'Location not specified'\<close>

definition default_location :: pystr where
  "default_location =
     [1051, 1086, 1082, 1072, 1094, 1080, 1103, 32, 1085, 1077, 32, 1091, 1082, 1072,
      1079, 1072, 1085, 1072]"

text \<open>line 194: '. ', office-building emoji, ' '\<close>

definition title_mark :: pystr where
  "title_mark =
     [46, 32, 127970, 32]"

text \<open>line 195: three spaces, 'Company: '\<close>

definition company_label :: pystr where
  "company_label =
     [32, 32, 32, 1050, 1086, 1084, 1087, 1072, 1085, 1080, 1103, 58, 32]"

text \<open>line 196: three spaces, round-pushpin emoji, ' '\<close>

definition location_label :: pystr where
  "location_label =
     [32, 32, 32, 128205, 32]"

text \<open>line 199: three spaces, alarm-clock emoji, ' '\<close>

definition type_label :: pystr where
  "type_label =
     [32, 32, 32, 9200, 32]"

text \<open>line 203: three spaces, page emoji, ' '\<close>

definition description_label :: pystr where
  "description_label =
     [32, 32, 32, 128196, 32]"

text \<open>line 206: three spaces, link emoji, ' '\<close>

definition url_label :: pystr where
  "url_label =
     [32, 32, 32, 128279, 32]"

text \<open>line 211: newline, light-bulb emoji, 'To see more vacancies, refine the query (for example, add a location or skills).'\<close>

definition narrow_hint :: pystr where
  "narrow_hint =
     [10, 128161, 32, 1063, 1090, 1086, 1073, 1099, 32, 1091, 1074, 1080, 1076, 1077,
      1090, 1100, 32, 1073, 1086, 1083, 1100, 1096, 1077, 32, 1074, 1072, 1082, 1072,
      1085, 1089, 1080, 1081, 44, 32, 1091, 1090, 1086, 1095, 1085, 1080, 1090, 1077,
      32, 1079, 1072, 1087, 1088, 1086, 1089, 32, 40, 1085, 1072, 1087, 1088, 1080,
      1084, 1077, 1088, 44, 32, 1076, 1086, 1073, 1072, 1074, 1100, 1090, 1077, 32,
      1083, 1086, 1082, 1072, 1094, 1080, 1102, 32, 1080, 1083, 1080, 32, 1085, 1072,
      1074, 1099, 1082, 1080, 41, 46]"

subsection \<open>\<open>format_jobs_response\<close>\<close>

text \<open>
  The body of the \<^verbatim>\<open>for\<close> loop (lines 188-208): the lines that one listing appends to
  \<^verbatim>\<open>response_parts\<close>. The lines of \<^verbatim>\<open>type\<close>, \<^verbatim>\<open>description\<close> and \<^verbatim>\<open>url\<close> are each under an
  \<^verbatim>\<open>if\<close> on the value's truth; the description is cut to 150 code points, stripped, and three
  dots are added.
\<close>

definition render_job :: "nat \<Rightarrow> pydict \<Rightarrow> pystr list" where
  "render_job idx job =
     (let title = dict_get job (ascii ''title'') default_title;
          company = dict_get job (ascii ''company'') default_company;
          loc = dict_get job (ascii ''location'') default_location;
          job_type = dict_get job (ascii ''type'') [];
          url = dict_get job (ascii ''url'') []
      in [str_nat idx @ title_mark @ title, company_label @ company, location_label @ loc]
         @ (if job_type \<noteq> [] then [type_label @ job_type] else [])
         @ (case job (ascii ''description'') of
              None \<Rightarrow> []
            | Some d \<Rightarrow>
                if d \<noteq> [] then [description_label @ py_strip (take 150 d) @ ascii ''...'']
                else [])
         @ (if url \<noteq> [] then [url_label @ url] else [])
         @ [[]])"

text \<open>
  The loop \<^verbatim>\<open>for idx, job in enumerate(jobs[:limit], 1)\<close>: \<open>parts\<close> is \<^verbatim>\<open>response_parts\<close>,
  \<open>idx\<close> the number of the next listing.
\<close>

fun jobs_loop :: "pystr list \<Rightarrow> nat \<Rightarrow> pydict list \<Rightarrow> pystr list" where
  "jobs_loop parts idx [] = parts"
| "jobs_loop parts idx (job # rest) = jobs_loop (parts @ render_job idx job) (Suc idx) rest"

text \<open>\<^verbatim>\<open>response_parts\<close> at the end of the function (lines 182-211), for a non-empty list.\<close>

definition format_jobs_parts :: "pydict list \<Rightarrow> int \<Rightarrow> pystr list" where
  "format_jobs_parts jobs limit =
     (let parts0 = [found_prefix @ str_nat (length jobs) @ [10]];
          parts1 = (if int (length jobs) > limit
                    then parts0 @ [showing_first @ str_int limit @ out_of
                                   @ str_nat (length jobs) @ ascii '':'' @ [10]]
                    else parts0);
          parts2 = jobs_loop parts1 1 (py_take limit jobs)
      in if int (length jobs) > limit then parts2 @ [narrow_hint] else parts2)"

definition format_jobs_response :: "pydict list \<Rightarrow> int \<Rightarrow> pystr" where
  "format_jobs_response jobs limit =
     (if jobs = [] then no_results_message else joinstr [10] (format_jobs_parts jobs limit))"

text \<open>The default of the parameter \<^verbatim>\<open>limit\<close>.\<close>

definition default_limit :: int where
  "default_limit = 5"

section \<open>Properties of the formatter\<close>

text \<open>
  C8. For the empty job list \<open>format_jobs_response\<close> returns the fixed "no results" message,
  whatever the limit; the message holds no decimal digit, so no numbered entry.
\<close>

theorem format_jobs_response_empty:
  "format_jobs_response [] limit = no_results_message \<and>
   filter (\<lambda>c. 48 \<le> c \<and> c \<le> 57) (format_jobs_response [] limit) = []"
  by (simp add: format_jobs_response_def no_results_message_def)

end
